theory Spec2Isabelle
  imports Main "HOL-Library.AList"
begin

section \<open>Python runtime values used by the adapter\<close>

text \<open>
  The adapter (\<^verbatim>\<open>openflexure-server.py\<close>) is a thin layer over a microscope client
  object. Everything the source does with Python values is written out here: exceptions
  are values of a sum type, strings are sequences of code points below 256, integers
  are unbounded, and a float is an IEEE-754 binary64 number with round-to-nearest,
  ties-to-even. The interpreter's limit on the number of digits when a very large
  integer is converted to text is left out.
\<close>

datatype exn = Exception (exc_class: string) (exc_str: string)

text \<open>
  \<open>Exception c t\<close> is an instance of the Python class \<open>c\<close> (a subclass of
  \<^verbatim>\<open>Exception\<close>) for which \<^verbatim>\<open>str(e)\<close> is \<open>t\<close>.
\<close>

abbreviation NL :: string where
  "NL \<equiv> [CHR 0x0A]"

abbreviation SQ :: string where
  "SQ \<equiv> [CHR 0x27]"

subsection \<open>Text of integers and strings\<close>

definition digit_char :: "int \<Rightarrow> char" where
  "digit_char d = char_of (48 + d)"

text \<open>The decimal digits of a non-negative integer.\<close>

function str_nat :: "int \<Rightarrow> string" where
  "str_nat n = (if n < 10 then [digit_char n] else str_nat (n div 10) @ [digit_char (n mod 10)])"
  by pat_completeness auto
termination
  by (relation "measure nat") auto

declare str_nat.simps [simp del]

definition str_int :: "int \<Rightarrow> string" where
  "str_int i = (if i < 0 then ''-'' @ str_nat (- i) else str_nat i)"

definition hex_char :: "int \<Rightarrow> char" where
  "hex_char d = (if d < 10 then char_of (48 + d) else char_of (87 + d))"

definition is_printable :: "char \<Rightarrow> bool" where
  "is_printable c =
     (let n = (of_char c :: int)
      in 32 \<le> n \<and> n < 127 \<or> 161 \<le> n \<and> n \<noteq> 173)"

definition repr_char :: "char \<Rightarrow> char \<Rightarrow> string" where
  "repr_char quote c =
     (if c = quote \<or> c = CHR 0x5C then [CHR 0x5C, c]
      else if c = CHR 0x09 then [CHR 0x5C, CHR ''t'']
      else if c = CHR 0x0A then [CHR 0x5C, CHR ''n'']
      else if c = CHR 0x0D then [CHR 0x5C, CHR ''r'']
      else if is_printable c then [c]
      else [CHR 0x5C, CHR ''x'', hex_char ((of_char c :: int) div 16),
            hex_char ((of_char c :: int) mod 16)])"

definition repr_str :: "string \<Rightarrow> string" where
  "repr_str s =
     (let quote = (if CHR 0x27 \<in> set s \<and> CHR 0x22 \<notin> set s then CHR 0x22 else CHR 0x27)
      in [quote] @ concat (map (repr_char quote) s) @ [quote])"

text \<open>\<^verbatim>\<open>sep.join(xs)\<close> on a list of strings.\<close>

fun join :: "string \<Rightarrow> string list \<Rightarrow> string" where
  "join sep [] = []"
| "join sep [x] = x"
| "join sep (x # y # ys) = x @ sep @ join sep (y # ys)"

definition lower_char :: "char \<Rightarrow> char" where
  "lower_char c =
     (let n = (of_char c :: int)
      in if 65 \<le> n \<and> n \<le> 90 \<or> 192 \<le> n \<and> n \<le> 222 \<and> n \<noteq> 215
         then char_of (n + 32) else c)"

definition lower :: "string \<Rightarrow> string" where
  "lower s = map lower_char s"

subsection \<open>Objects returned by the device\<close>

text \<open>
  A value decoded from a device response. \<open>PyOther t s r\<close> stands for any other object:
  \<open>t\<close> is its type name, \<open>s\<close> the text of \<^verbatim>\<open>str\<close> and \<open>r\<close> the text of
  \<^verbatim>\<open>repr\<close>.
\<close>

datatype pyobj =
    PyNone
  | PyBool bool
  | PyInt int
  | PyStr string
  | PyList "pyobj list"
  | PyDict "(string \<times> pyobj) list"
  | PyOther string string string

fun repr_obj :: "pyobj \<Rightarrow> string"
  and repr_objs :: "pyobj list \<Rightarrow> string list"
  and repr_items :: "(string \<times> pyobj) list \<Rightarrow> string list" where
  "repr_obj PyNone = ''None''"
| "repr_obj (PyBool b) = (if b then ''True'' else ''False'')"
| "repr_obj (PyInt i) = str_int i"
| "repr_obj (PyStr s) = repr_str s"
| "repr_obj (PyList xs) = ''['' @ join '', '' (repr_objs xs) @ '']''"
| "repr_obj (PyDict kvs) = ''{'' @ join '', '' (repr_items kvs) @ ''}''"
| "repr_obj (PyOther t s r) = r"
| "repr_objs [] = []"
| "repr_objs (x # xs) = repr_obj x # repr_objs xs"
| "repr_items [] = []"
| "repr_items (kv # kvs) = (repr_str (fst kv) @ '': '' @ repr_obj (snd kv)) # repr_items kvs"

text \<open>What an f-string field \<^verbatim>\<open>{v}\<close> yields: \<^verbatim>\<open>str(v)\<close>.\<close>

fun str_obj :: "pyobj \<Rightarrow> string" where
  "str_obj (PyStr s) = s"
| "str_obj (PyOther t s r) = s"
| "str_obj v = repr_obj v"




subsection \<open>Position dictionaries\<close>

text \<open>
  A position is a dict from axis names to integer step counts, kept in insertion order.
  \<^verbatim>\<open>d[k] = v\<close> is \<open>AList.update k v d\<close>: an existing key keeps its place, a new key
  goes last.
\<close>

type_synonym posdict = "(string \<times> int) list"

definition getitem :: "posdict \<Rightarrow> string \<Rightarrow> exn + int" where
  "getitem d k = (case map_of d k of Some v \<Rightarrow> Inr v
                  | None \<Rightarrow> Inl (Exception ''KeyError'' (repr_str k)))"

definition dict_get :: "posdict \<Rightarrow> string \<Rightarrow> int \<Rightarrow> int" where
  "dict_get d k dflt = (case map_of d k of Some v \<Rightarrow> v | None \<Rightarrow> dflt)"

definition repr_pos :: "posdict \<Rightarrow> string" where
  "repr_pos d = ''{'' @ join '', '' (map (\<lambda>kv. repr_str (fst kv) @ '': '' @ str_int (snd kv)) d) @ ''}''"

definition repr_ints :: "int list \<Rightarrow> string" where
  "repr_ints xs = ''['' @ join '', '' (map str_int xs) @ '']''"

section \<open>Floating-point numbers\<close>

text \<open>
  \<open>Fin s m e\<close> is the finite binary64 number \<open>(-1)\<^sup>s \<sqdot> m \<sqdot> 2\<^sup>e\<close> with
  \<open>m < 2\<^sup>5\<^sup>3\<close> and \<open>- 1074 \<le> e \<le> 971\<close>, normalised so that \<open>2\<^sup>5\<^sup>2 \<le> m\<close> unless
  \<open>e = - 1074\<close>; the two zeros are \<open>Fin s 0 0\<close>.
\<close>

datatype double = Fin bool int int | Inf bool | NaN

function bit_length :: "int \<Rightarrow> int" where
  "bit_length n = (if n \<le> 0 then 0 else 1 + bit_length (n div 2))"
  by pat_completeness auto
termination
  by (relation "measure nat") auto

declare bit_length.simps [simp del]

text \<open>\<open>2\<^sup>k\<close> for \<open>k \<ge> 0\<close>.\<close>

function pow2 :: "int \<Rightarrow> int" where
  "pow2 k = (if k \<le> 0 then 1 else 2 * pow2 (k - 1))"
  by pat_completeness auto
termination
  by (relation "measure nat") auto

declare pow2.simps [simp del]

text \<open>\<open>\<lfloor>log\<^sub>2 (p / q)\<rfloor>\<close> for positive \<open>p\<close> and \<open>q\<close>.\<close>

definition floor_log2 :: "int \<Rightarrow> int \<Rightarrow> int" where
  "floor_log2 p q =
     (let d = bit_length p - bit_length q
      in if (if 0 \<le> d then q * pow2 d \<le> p else q \<le> p * pow2 (- d)) then d else d - 1)"

text \<open>The quotient \<open>n / d\<close> rounded to the nearest integer, ties to even, for \<open>n \<ge> 0\<close> and \<open>d > 0\<close>.\<close>

definition round_half_even :: "int \<Rightarrow> int \<Rightarrow> int" where
  "round_half_even n d =
     (let q = n div d; r = n mod d
      in if 2 * r < d then q
         else if d < 2 * r then q + 1
         else if even q then q else q + 1)"

text \<open>
  The value \<open>(p / q) \<sqdot> 2\<^sup>k\<close> with sign \<open>s\<close>, rounded to binary64: the result keeps 53
  significant bits (fewer below the normal range), a result that rounds to nothing is a
  zero of the same sign, and a result beyond the largest finite number is an infinity.
\<close>

definition round_double :: "bool \<Rightarrow> int \<Rightarrow> int \<Rightarrow> int \<Rightarrow> double" where
  "round_double s p q k =
     (if p = 0 then Fin s 0 0
      else
        let e = max (floor_log2 p q + k - 52) (- 1074);
            m = (if e \<le> k then round_half_even (p * pow2 (k - e)) q
                 else round_half_even p (q * pow2 (e - k)));
            e' = (if m = pow2 53 then e + 1 else e);
            m' = (if m = pow2 53 then pow2 52 else m)
        in if 971 < e' then Inf s else if m' = 0 then Fin s 0 0 else Fin s m' e')"

text \<open>\<^verbatim>\<open>float(n)\<close> for an int, as done implicitly in mixed arithmetic.\<close>

definition float_of_int :: "int \<Rightarrow> exn + double" where
  "float_of_int n =
     (case round_double (n < 0) \<bar>n\<bar> 1 0 of
        Inf s \<Rightarrow> Inl (Exception ''OverflowError'' ''int too large to convert to float'')
      | d \<Rightarrow> Inr d)"

text \<open>\<^verbatim>\<open>a / b\<close> on two ints: the correctly rounded quotient.\<close>

definition int_truediv :: "int \<Rightarrow> int \<Rightarrow> exn + double" where
  "int_truediv a b =
     (if b = 0 then Inl (Exception ''ZeroDivisionError'' ''division by zero'')
      else case round_double ((a < 0) \<noteq> (b < 0)) \<bar>a\<bar> \<bar>b\<bar> 0 of
        Inf s \<Rightarrow> Inl (Exception ''OverflowError'' ''integer division result too large for a float'')
      | d \<Rightarrow> Inr d)"

fun float_mul :: "double \<Rightarrow> double \<Rightarrow> double" where
  "float_mul (Fin s1 m1 e1) (Fin s2 m2 e2) = round_double (s1 \<noteq> s2) (m1 * m2) 1 (e1 + e2)"
| "float_mul (Fin s1 m1 e1) (Inf s2) = (if m1 = 0 then NaN else Inf (s1 \<noteq> s2))"
| "float_mul (Inf s1) (Fin s2 m2 e2) = (if m2 = 0 then NaN else Inf (s1 \<noteq> s2))"
| "float_mul (Inf s1) (Inf s2) = Inf (s1 \<noteq> s2)"
| "float_mul NaN y = NaN"
| "float_mul x NaN = NaN"

definition signed_mant :: "bool \<Rightarrow> int \<Rightarrow> int" where
  "signed_mant s m = (if s then - m else m)"

fun float_add :: "double \<Rightarrow> double \<Rightarrow> double" where
  "float_add (Fin s1 m1 e1) (Fin s2 m2 e2) =
     (let e = min e1 e2;
          n = signed_mant s1 m1 * pow2 (e1 - e) + signed_mant s2 m2 * pow2 (e2 - e)
      in if n = 0 then Fin (s1 \<and> s2) 0 0
         else round_double (n < 0) \<bar>n\<bar> 1 e)"
| "float_add (Fin s1 m1 e1) (Inf s2) = Inf s2"
| "float_add (Inf s1) (Fin s2 m2 e2) = Inf s1"
| "float_add (Inf s1) (Inf s2) = (if s1 = s2 then Inf s1 else NaN)"
| "float_add NaN y = NaN"
| "float_add x NaN = NaN"

text \<open>\<^verbatim>\<open>int(x)\<close> on a float: truncation toward zero.\<close>

fun float_trunc :: "double \<Rightarrow> exn + int" where
  "float_trunc (Fin s m e) =
     Inr (signed_mant s (if 0 \<le> e then m * pow2 e else m div pow2 (- e)))"
| "float_trunc (Inf s) =
     Inl (Exception ''OverflowError'' ''cannot convert float infinity to integer'')"
| "float_trunc NaN = Inl (Exception ''ValueError'' ''cannot convert float NaN to integer'')"

text \<open>The format specification \<^verbatim>\<open>.2f\<close>.\<close>

definition two_digits :: "int \<Rightarrow> string" where
  "two_digits n = [digit_char (n div 10), digit_char (n mod 10)]"

fun format_2f :: "double \<Rightarrow> string" where
  "format_2f (Fin s m e) =
     (let h = (if 0 \<le> e then m * pow2 e * 100 else round_half_even (m * 100) (pow2 (- e)))
      in (if s then ''-'' else []) @ str_nat (h div 100) @ ''.'' @ two_digits (h mod 100))"
| "format_2f (Inf s) = (if s then ''-inf'' else ''inf'')"
| "format_2f NaN = ''nan''"

text \<open>
  A number is an int or a float: \<^verbatim>\<open>z_step\<close> is the int \<open>0\<close> or the float result of
  a true division, and the arithmetic on it follows Python's mixed-mode rules.
\<close>

datatype pynum = PInt int | PFloat double

fun int_times :: "int \<Rightarrow> pynum \<Rightarrow> exn + pynum" where
  "int_times i (PInt n) = Inr (PInt (i * n))"
| "int_times i (PFloat d) =
     (case float_of_int i of Inl err \<Rightarrow> Inl err | Inr x \<Rightarrow> Inr (PFloat (float_mul x d)))"

fun int_plus :: "int \<Rightarrow> pynum \<Rightarrow> exn + pynum" where
  "int_plus i (PInt n) = Inr (PInt (i + n))"
| "int_plus i (PFloat d) =
     (case float_of_int i of Inl err \<Rightarrow> Inl err | Inr x \<Rightarrow> Inr (PFloat (float_add x d)))"

fun to_int :: "pynum \<Rightarrow> exn + int" where
  "to_int (PInt n) = Inr n"
| "to_int (PFloat d) = float_trunc d"

fun format_num_2f :: "pynum \<Rightarrow> exn + string" where
  "format_num_2f (PInt n) =
     (case float_of_int n of Inl err \<Rightarrow> Inl err | Inr x \<Rightarrow> Inr (format_2f x))"
| "format_num_2f (PFloat d) = Inr (format_2f d)"

section \<open>The microscope client\<close>

text \<open>
  The client object (\<^verbatim>\<open>ofm_client.MicroscopeClient\<close>) is not part of the repository.
  It is a parameter of every operation: a record of its methods over an arbitrary
  device state \<open>'s\<close>. Each method may change the device state and either returns a
  value or raises. The extension registry \<^verbatim>\<open>microscope.extensions\<close> is a dict of
  dicts held by the client; only the names matter to the adapter, so it is a list of
  extension names, each with the names of its links.
\<close>

type_synonym ('s, 'a) prog = "'s \<Rightarrow> (exn + 'a) \<times> 's"

record image =
  width :: int
  height :: int

type_synonym registry = "(string \<times> string list) list"

record 's microscope =
  extensions :: registry
  position :: "('s, posdict) prog"
  get_position_array :: "('s, pyobj) prog"
  move :: "posdict \<Rightarrow> ('s, unit) prog"
  move_rel :: "posdict \<Rightarrow> ('s, unit) prog"
  grab_image :: "('s, image) prog"
  link_get :: "string \<Rightarrow> string \<Rightarrow> ('s, pyobj) prog"
  link_post_json :: "string \<Rightarrow> string \<Rightarrow> (string \<times> pyobj) list \<Rightarrow> ('s, pyobj) prog"

subsection \<open>Sequencing, raising and catching\<close>

definition ret :: "'a \<Rightarrow> ('s, 'a) prog" where
  "ret x = (\<lambda>s. (Inr x, s))"

definition lift :: "exn + 'a \<Rightarrow> ('s, 'a) prog" where
  "lift r = (\<lambda>s. (r, s))"

definition bnd :: "('s, 'a) prog \<Rightarrow> ('a \<Rightarrow> ('s, 'b) prog) \<Rightarrow> ('s, 'b) prog" where
  "bnd m f = (\<lambda>s. case m s of (Inl e, s') \<Rightarrow> (Inl e, s') | (Inr x, s') \<Rightarrow> f x s')"

text \<open>\<^verbatim>\<open>try: m  except Exception as e: h e\<close>\<close>

definition try_except :: "('s, 'a) prog \<Rightarrow> (exn \<Rightarrow> ('s, 'a) prog) \<Rightarrow> ('s, 'a) prog" where
  "try_except m h = (\<lambda>s. case m s of (Inl e, s') \<Rightarrow> h e s' | (Inr x, s') \<Rightarrow> (Inr x, s'))"

subsection \<open>Observing the calls made on the client\<close>

datatype call =
    GetPosition
  | GetPositionArray
  | Move posdict
  | MoveRel posdict
  | GrabImage
  | LinkGet string string
  | LinkPostJson string string "(string \<times> pyobj) list"

text \<open>
  \<open>logged m\<close> behaves as \<open>m\<close> and appends every method call, with its arguments, to a
  log kept beside the device state. The log is how the theorems below speak about
  what was sent to the device.
\<close>

definition record_call :: "call \<Rightarrow> ('s, 'a) prog \<Rightarrow> ('s \<times> call list, 'a) prog" where
  "record_call c f = (\<lambda>(s, lg). case f s of (r, s') \<Rightarrow> (r, (s', lg @ [c])))"

definition logged :: "'s microscope \<Rightarrow> ('s \<times> call list) microscope" where
  "logged m =
     \<lparr> extensions = extensions m,
       position = record_call GetPosition (position m),
       get_position_array = record_call GetPositionArray (get_position_array m),
       move = (\<lambda>p. record_call (Move p) (move m p)),
       move_rel = (\<lambda>p. record_call (MoveRel p) (move_rel m p)),
       grab_image = record_call GrabImage (grab_image m),
       link_get = (\<lambda>e l. record_call (LinkGet e l) (link_get m e l)),
       link_post_json = (\<lambda>e l p. record_call (LinkPostJson e l p) (link_post_json m e l p)) \<rparr>"

section \<open>The adapter operations\<close>

subsection \<open>Resources\<close>







subsection \<open>Moving the stage\<close>

definition set_axis :: "string \<Rightarrow> int option \<Rightarrow> posdict \<Rightarrow> posdict" where
  "set_axis k v d = (case v of None \<Rightarrow> d | Some n \<Rightarrow> AList.update k n d)"

definition move_text :: "posdict \<Rightarrow> posdict \<Rightarrow> int \<Rightarrow> int \<Rightarrow> int \<Rightarrow> string" where
  "move_text before_pos after_pos dx dy dz =
     NL @ ''    Stage moved successfully!'' @ NL @
     ''    '' @ NL @
     ''    Before: '' @ repr_pos before_pos @ NL @
     ''    After: '' @ repr_pos after_pos @ NL @
     ''    Delta: X: '' @ str_int dx @ '', Y: '' @ str_int dy @ '', Z: '' @ str_int dz @ NL @
     ''    ''"

definition no_position_text :: string where
  "no_position_text = ''No position specified. Please provide x, y, or z coordinates.''"

definition move_stage ::
  "'s microscope \<Rightarrow> int option \<Rightarrow> int option \<Rightarrow> int option \<Rightarrow> bool \<Rightarrow> ('s, string) prog" where
  "move_stage m x y z relative =
     (let target = set_axis ''z'' z (set_axis ''y'' y (set_axis ''x'' x []))
      in if target = [] then ret no_position_text
         else
           bnd (position m) (\<lambda>before_pos.
           bnd (if relative then move_rel m target else move m target) (\<lambda>_.
           bnd (position m) (\<lambda>after_pos.
           bnd (lift (getitem after_pos ''x'')) (\<lambda>ax.
           bnd (lift (getitem before_pos ''x'')) (\<lambda>bx.
           bnd (lift (getitem after_pos ''y'')) (\<lambda>ay.
           bnd (lift (getitem before_pos ''y'')) (\<lambda>by.
           bnd (lift (getitem after_pos ''z'')) (\<lambda>az.
           bnd (lift (getitem before_pos ''z'')) (\<lambda>bz.
           ret (move_text before_pos after_pos (ax - bx) (ay - by) (az - bz))))))))))))"

subsection \<open>Generic extension dispatch\<close>

definition repr_strs :: "string list \<Rightarrow> string" where
  "repr_strs xs = ''['' @ join '', '' (map repr_str xs) @ '']''"

definition extension_not_found_text :: "string \<Rightarrow> string list \<Rightarrow> string" where
  "extension_not_found_text extension_name known =
     ''Extension '' @ SQ @ extension_name @ SQ @ '' not found. Available extensions: '' @
     repr_strs known"

definition link_not_found_text :: "string \<Rightarrow> string \<Rightarrow> string list \<Rightarrow> string" where
  "link_not_found_text link_name extension_name known =
     ''Link '' @ SQ @ link_name @ SQ @ '' not found in extension '' @ SQ @ extension_name @ SQ @
     ''. Available links: '' @ repr_strs known"

definition unknown_method_text :: "string \<Rightarrow> string" where
  "unknown_method_text method =
     ''Unknown method '' @ SQ @ method @ SQ @ ''. Please use '' @ SQ @ ''get'' @ SQ @
     '' or '' @ SQ @ ''post'' @ SQ @ ''.''"

definition call_success_text :: "string \<Rightarrow> string \<Rightarrow> string \<Rightarrow> pyobj \<Rightarrow> string" where
  "call_success_text extension_name link_name method result =
     NL @ ''        Extension call successful:'' @ NL @
     ''        '' @ NL @
     ''        Extension: '' @ extension_name @ NL @
     ''        Link: '' @ link_name @ NL @
     ''        Method: '' @ method @ NL @
     ''        '' @ NL @
     ''        Result:'' @ NL @
     ''        '' @ str_obj result @ NL @
     ''        ''"

definition call_error_text :: "exn \<Rightarrow> string" where
  "call_error_text e = ''Error calling extension: '' @ exc_str e"

definition call_extension ::
  "'s microscope \<Rightarrow> string \<Rightarrow> string \<Rightarrow> string \<Rightarrow> (string \<times> pyobj) list option
     \<Rightarrow> ('s, string) prog" where
  "call_extension m extension_name link_name method payload =
     (case map_of (extensions m) extension_name of
        None \<Rightarrow> ret (extension_not_found_text extension_name (map fst (extensions m)))
      | Some links \<Rightarrow>
          if link_name \<notin> set links
          then ret (link_not_found_text link_name extension_name links)
          else
            try_except
              (if lower method = ''get'' then
                 bnd (link_get m extension_name link_name) (\<lambda>result.
                 ret (call_success_text extension_name link_name method result))
               else if lower method = ''post'' then
                 bnd (link_post_json m extension_name link_name
                        (case payload of None \<Rightarrow> [] | Some p \<Rightarrow> p)) (\<lambda>result.
                 ret (call_success_text extension_name link_name method result))
               else ret (unknown_method_text method))
              (\<lambda>e. ret (call_error_text e)))"

subsection \<open>Z-stack acquisition\<close>

record capture =
  cap_index :: int
  cap_z :: int
  cap_image_size :: "int \<times> int"

text \<open>\<^verbatim>\<open>z_step = (end_z - start_z) / (steps - 1) if steps > 1 else 0\<close>\<close>

definition z_step_of :: "int \<Rightarrow> int \<Rightarrow> int \<Rightarrow> exn + pynum" where
  "z_step_of start_z end_z steps =
     (if 1 < steps
      then (case int_truediv (end_z - start_z) (steps - 1) of
              Inl err \<Rightarrow> Inl err | Inr d \<Rightarrow> Inr (PFloat d))
      else Inr (PInt 0))"

text \<open>\<^verbatim>\<open>int(start_z + i * z_step)\<close>, the Z value commanded at iteration \<open>i\<close>.\<close>

definition target_z :: "int \<Rightarrow> pynum \<Rightarrow> int \<Rightarrow> exn + int" where
  "target_z start_z z_step i =
     (case int_times i z_step of
        Inl err \<Rightarrow> Inl err
      | Inr step \<Rightarrow>
          (case int_plus start_z step of
             Inl err \<Rightarrow> Inl err
           | Inr current_z \<Rightarrow> to_int current_z))"

text \<open>
  The body of \<^verbatim>\<open>for i in range(steps)\<close>, as a recursion over the indices still to
  run. \<^verbatim>\<open>ctx.info\<close> does not involve the microscope; of it only the evaluation of
  \<^verbatim>\<open>actual_pos['z']\<close> in its argument is kept, which raises on a missing key.
\<close>

fun z_loop ::
  "'s microscope \<Rightarrow> posdict \<Rightarrow> int \<Rightarrow> pynum \<Rightarrow> int list \<Rightarrow> capture list
     \<Rightarrow> ('s, capture list) prog" where
  "z_loop m new_pos start_z z_step [] captured_positions = ret captured_positions"
| "z_loop m new_pos start_z z_step (i # rest) captured_positions =
     bnd (lift (target_z start_z z_step i)) (\<lambda>current_z.
     bnd (move m (AList.update ''z'' current_z new_pos)) (\<lambda>_.
     bnd (position m) (\<lambda>actual_pos.
     bnd (lift (getitem actual_pos ''z'')) (\<lambda>actual_z.
     bnd (grab_image m) (\<lambda>img.
     z_loop m new_pos start_z z_step rest
       (captured_positions @
          [\<lparr> cap_index = i + 1, cap_z = actual_z,
             cap_image_size = (width img, height img) \<rparr>]))))))"

definition z_stack_text ::
  "capture list \<Rightarrow> int \<Rightarrow> int \<Rightarrow> string \<Rightarrow> posdict \<Rightarrow> string" where
  "z_stack_text captured_positions start_z end_z step_text final_pos =
     NL @ ''    Z-stack acquisition completed!'' @ NL @
     ''    '' @ NL @
     ''    Captured '' @ str_int (int (length captured_positions)) @ '' images'' @ NL @
     ''    Z range: '' @ str_int start_z @ '' to '' @ str_int end_z @ NL @
     ''    Step size: '' @ step_text @ NL @
     ''    '' @ NL @
     ''    Images captured at Z positions:'' @ NL @
     ''    '' @ repr_ints (map cap_z captured_positions) @ NL @
     ''    '' @ NL @
     ''    Current position: '' @ repr_pos final_pos @ NL @
     ''    ''"

definition run_z_stack :: "'s microscope \<Rightarrow> int \<Rightarrow> int \<Rightarrow> int \<Rightarrow> ('s, string) prog" where
  "run_z_stack m start_z end_z steps =
     bnd (lift (z_step_of start_z end_z steps)) (\<lambda>z_step.
     bnd (position m) (\<lambda>start_pos.
     let new_pos = AList.update ''z'' start_z start_pos in
     bnd (move m new_pos) (\<lambda>_.
     bnd (z_loop m new_pos start_z z_step [0..steps - 1] []) (\<lambda>captured_positions.
     bnd (move m start_pos) (\<lambda>_.
     bnd (lift (format_num_2f z_step)) (\<lambda>step_text.
     bnd (position m) (\<lambda>final_pos.
     ret (z_stack_text captured_positions start_z end_z step_text final_pos))))))))"

section \<open>A simulated stage\<close>

text \<open>
  A concrete client for running the operations: the device state is the stage position
  \<open>(x, y, z)\<close>, an absolute move sets the given axes, a relative move adds to them,
  every image is 640 by 480, and one extension with one link is registered. With
  \<open>ok = False\<close> the link raises instead of answering.
\<close>

type_synonym stage = "int \<times> int \<times> int"

definition sim_info :: pyobj where
  "sim_info = PyDict [(''name'', PyStr ''sim''), (''version'', PyInt 2)]"

definition sim_link :: "bool \<Rightarrow> (stage, pyobj) prog" where
  "sim_link ok = (if ok then ret sim_info
                  else lift (Inl (Exception ''ConnectionError'' ''unreachable'')))"

definition sim_position :: "(stage, posdict) prog" where
  "sim_position = (\<lambda>(x, y, z). (Inr [(''x'', x), (''y'', y), (''z'', z)], (x, y, z)))"

definition sim_move :: "posdict \<Rightarrow> (stage, unit) prog" where
  "sim_move p = (\<lambda>(x, y, z). (Inr (), (dict_get p ''x'' x, dict_get p ''y'' y, dict_get p ''z'' z)))"

definition sim_move_rel :: "posdict \<Rightarrow> (stage, unit) prog" where
  "sim_move_rel p =
     (\<lambda>(x, y, z). (Inr (), (x + dict_get p ''x'' 0, y + dict_get p ''y'' 0, z + dict_get p ''z'' 0)))"

definition sim :: "bool \<Rightarrow> stage microscope" where
  "sim ok =
     \<lparr> extensions = [(''org.openflexure.microscope'', [''device-info''])],
       position = sim_position,
       get_position_array = (\<lambda>(x, y, z). (Inr (PyList [PyInt x, PyInt y, PyInt z]), (x, y, z))),
       move = sim_move,
       move_rel = sim_move_rel,
       grab_image = (\<lambda>s. (Inr \<lparr> width = 640, height = 480 \<rparr>, s)),
       link_get = (\<lambda>e l. sim_link ok),
       link_post_json = (\<lambda>e l p. sim_link ok) \<rparr>"

definition origin :: stage where
  "origin = (0, 0, 0)"

text \<open>The same client with two extensions registered, the first with two links.\<close>

definition sim_ext :: "stage microscope" where
  "sim_ext =
     (sim True) \<lparr> extensions :=
       [(''org.openflexure.microscope'', [''device-info'', ''state'']),
        (''org.openflexure.autofocus'', [''fast_autofocus''])] \<rparr>"




section \<open>Vocabulary of the properties\<close>

text \<open>The calls of one iteration of the capture loop that commands \<open>z\<close>.\<close>

definition iteration_calls :: "posdict \<Rightarrow> int \<Rightarrow> call list" where
  "iteration_calls new_pos z = [Move (AList.update ''z'' z new_pos), GetPosition, GrabImage]"

text \<open>
  All calls of a Z-stack that saved \<open>start_pos\<close> and commanded the Z values \<open>zs\<close>
  in its loop.
\<close>

definition stack_calls :: "posdict \<Rightarrow> int \<Rightarrow> int list \<Rightarrow> call list" where
  "stack_calls start_pos start_z zs =
     [GetPosition, Move (AList.update ''z'' start_z start_pos)] @
     concat (map (iteration_calls (AList.update ''z'' start_z start_pos)) zs) @
     [Move start_pos, GetPosition]"

text \<open>The positions commanded by absolute moves, in order.\<close>

fun moves :: "call list \<Rightarrow> posdict list" where
  "moves [] = []"
| "moves (Move p # cs) = p # moves cs"
| "moves (c # cs) = moves cs"

text \<open>
  The Z value of iteration \<open>i\<close> as the specification words it: the truncation toward
  zero of the exact number \<open>start_z + i \<sqdot> ((end_z - start_z) / (N - 1))\<close>, for
  \<open>N > 1\<close>. The number is written over the denominator \<open>N - 1\<close>, so that the
  truncation is an integer division of magnitudes.
\<close>

definition exact_target_z :: "int \<Rightarrow> int \<Rightarrow> int \<Rightarrow> int \<Rightarrow> int" where
  "exact_target_z start_z end_z steps i =
     (let num = start_z * (steps - 1) + i * (end_z - start_z); den = steps - 1
      in if 0 \<le> num then num div den else - ((- num) div den))"

section \<open>Running the operations step by step\<close>

lemma bnd_apply: "bnd f g s = (case f s of (Inl e, s') \<Rightarrow> (Inl e, s') | (Inr x, s') \<Rightarrow> g x s')"
  by (simp add: bnd_def)

lemma lift_apply: "lift r s = (r, s)"
  by (simp add: lift_def)

lemma ret_apply: "ret x s = (Inr x, s)"
  by (simp add: ret_def)

lemma record_call_apply: "record_call c f (s, lg) = (fst (f s), (snd (f s), lg @ [c]))"
  by (simp add: record_call_def split: prod.splits)

lemma logged_sel:
  "extensions (logged m) = extensions m"
  "position (logged m) = record_call GetPosition (position m)"
  "get_position_array (logged m) = record_call GetPositionArray (get_position_array m)"
  "move (logged m) p = record_call (Move p) (move m p)"
  "move_rel (logged m) p = record_call (MoveRel p) (move_rel m p)"
  "grab_image (logged m) = record_call GrabImage (grab_image m)"
  "link_get (logged m) e l = record_call (LinkGet e l) (link_get m e l)"
  "link_post_json (logged m) e l pl = record_call (LinkPostJson e l pl) (link_post_json m e l pl)"
  by (simp_all add: logged_def)

lemmas run_simps = bnd_apply lift_apply ret_apply record_call_apply logged_sel

lemma z_loop_calls:
  "z_loop (logged m) new_pos start_z z_step idx cap (s, lg) = (Inr cap', (s', lg')) \<Longrightarrow>
   \<exists>zs. map (target_z start_z z_step) idx = map Inr zs \<and>
        lg' = lg @ concat (map (iteration_calls new_pos) zs) \<and>
        length cap' = length cap + length idx"
proof (induction idx arbitrary: cap s lg)
  case Nil
  then show ?case by (simp add: run_simps)
next
  case (Cons i rest)
  from Cons.prems obtain z az and img :: image and s3 where
    tz: "target_z start_z z_step i = Inr z" and
    rest: "z_loop (logged m) new_pos start_z z_step rest
             (cap @ [\<lparr>cap_index = i + 1, cap_z = az, cap_image_size = (width img, height img)\<rparr>])
             (s3, lg @ iteration_calls new_pos z) = (Inr cap', (s', lg'))"
    by (auto simp: run_simps iteration_calls_def split: sum.splits prod.splits)
  from Cons.IH[OF rest] obtain zs where
    "map (target_z start_z z_step) rest = map Inr zs"
    "lg' = (lg @ iteration_calls new_pos z) @ concat (map (iteration_calls new_pos) zs)"
    "length cap' = length (cap @ [\<lparr>cap_index = i + 1, cap_z = az, cap_image_size = (width img, height img)\<rparr>]) + length rest"
    by blast
  then show ?case using tz
    by (intro exI[of _ "z # zs"]) simp
qed

lemma run_z_stack_calls:
  assumes "run_z_stack (logged m) start_z end_z steps (s, lg) = (Inr out, (s', lg'))"
  shows "\<exists>z_step start_pos zs.
           z_step_of start_z end_z steps = Inr z_step \<and>
           fst (position m s) = Inr start_pos \<and>
           map (target_z start_z z_step) [0..steps - 1] = map Inr zs \<and>
           lg' = lg @ stack_calls start_pos start_z zs"
  using assms
  by (auto simp: run_z_stack_def run_simps Let_def stack_calls_def
        split: sum.splits prod.splits dest!: z_loop_calls)

lemma map_of_target:
  "map_of (set_axis ''z'' z (set_axis ''y'' y (set_axis ''x'' x []))) k =
     (if k = ''z'' then z else if k = ''y'' then y else if k = ''x'' then x else None)"
  by (cases x; cases y; cases z) (simp_all add: set_axis_def update_conv')

lemma target_empty_iff:
  "set_axis ''z'' z (set_axis ''y'' y (set_axis ''x'' x [])) = [] \<longleftrightarrow> x = None \<and> y = None \<and> z = None"
  by (cases x; cases y; cases z) (simp_all add: set_axis_def)

section \<open>Moving the stage\<close>

text \<open>
  C1. A \<^verbatim>\<open>move_stage\<close> call with at least one of \<open>x\<close>, \<open>y\<close>, \<open>z\<close> supplied reads the
  position, sends one move command (relative or absolute) and reads the position again.
  The command holds exactly the supplied axes: an axis is a key of the command if and
  only if it was supplied, with the supplied value. The report's delta is the position
  read after the move minus the position read before it, axis by axis.
\<close>

theorem move_stage_report:
  assumes "x \<noteq> None \<or> y \<noteq> None \<or> z \<noteq> None"
    and "target = set_axis ''z'' z (set_axis ''y'' y (set_axis ''x'' x []))"
    and "position m s = (Inr before_pos, s1)"
    and "(if relative then move_rel m target else move m target) s1 = (Inr (), s2)"
    and "position m s2 = (Inr after_pos, s3)"
    and "map_of before_pos ''x'' = Some x0" and "map_of before_pos ''y'' = Some y0"
    and "map_of before_pos ''z'' = Some z0"
    and "map_of after_pos ''x'' = Some x1" and "map_of after_pos ''y'' = Some y1"
    and "map_of after_pos ''z'' = Some z1"
  shows "move_stage (logged m) x y z relative (s, []) =
           (Inr (NL @ ''    Stage moved successfully!'' @ NL @
                 ''    '' @ NL @
                 ''    Before: '' @ repr_pos before_pos @ NL @
                 ''    After: '' @ repr_pos after_pos @ NL @
                 ''    Delta: X: '' @ str_int (x1 - x0) @ '', Y: '' @ str_int (y1 - y0) @
                 '', Z: '' @ str_int (z1 - z0) @ NL @
                 ''    ''),
            (s3, [GetPosition, if relative then MoveRel target else Move target, GetPosition]))
         \<and> (\<forall>k. map_of target k =
                 (if k = ''z'' then z else if k = ''y'' then y else if k = ''x'' then x else None))"
proof -
  have ne: "target \<noteq> []"
    using assms(1,2) by (simp add: target_empty_iff)
  show ?thesis
    using assms(3-) ne unfolding assms(2)[symmetric]
    by (cases relative)
       (simp_all add: move_stage_def Let_def run_simps getitem_def assms(2)[symmetric]
          move_text_def map_of_target[of z y x, folded assms(2)])
qed

lemma repr_pos_examples:
  "repr_pos [(''x'', 0), (''y'', 0), (''z'', 0)] = ''{'x': 0, 'y': 0, 'z': 0}''"
  "repr_pos [(''x'', 10), (''y'', 0), (''z'', 0)] = ''{'x': 10, 'y': 0, 'z': 0}''"
  "repr_pos [(''x'', 3), (''y'', - 4), (''z'', 5)] = ''{'x': 3, 'y': -4, 'z': 5}''"
  "repr_pos [(''x'', 13), (''y'', - 4), (''z'', - 2)] = ''{'x': 13, 'y': -4, 'z': -2}''"
  by code_simp+

lemma str_int_examples:
  "str_int 0 = ''0''" "str_int 10 = ''10''" "str_int (- 7) = ''-7''"
  by code_simp+

theorem move_stage_report_witness:
  "move_stage (logged (sim True)) (Some 10) None None False (origin, []) =
     (Inr (NL @ ''    Stage moved successfully!'' @ NL @
           ''    '' @ NL @
           ''    Before: {'x': 0, 'y': 0, 'z': 0}'' @ NL @
           ''    After: {'x': 10, 'y': 0, 'z': 0}'' @ NL @
           ''    Delta: X: 10, Y: 0, Z: 0'' @ NL @
           ''    ''),
      ((10, 0, 0), [GetPosition, Move [(''x'', 10)], GetPosition]))
   \<and> move_stage (logged (sim True)) (Some 10) None (Some (- 7)) True ((3, - 4, 5), []) =
     (Inr (NL @ ''    Stage moved successfully!'' @ NL @
           ''    '' @ NL @
           ''    Before: {'x': 3, 'y': -4, 'z': 5}'' @ NL @
           ''    After: {'x': 13, 'y': -4, 'z': -2}'' @ NL @
           ''    Delta: X: 10, Y: 0, Z: -7'' @ NL @
           ''    ''),
      ((13, - 4, - 2), [GetPosition, MoveRel [(''x'', 10), (''z'', - 7)], GetPosition]))"
  using
    move_stage_report [where x = "Some 10" and y = None and z = None
      and target = "[(''x'', 10)]" and m = "sim True" and s = origin and relative = False
      and before_pos = "[(''x'', 0), (''y'', 0), (''z'', 0)]" and ?s1.0 = origin
      and ?s2.0 = "(10, 0, 0)" and after_pos = "[(''x'', 10), (''y'', 0), (''z'', 0)]"
      and ?s3.0 = "(10, 0, 0)" and ?x0.0 = 0 and ?y0.0 = 0 and ?z0.0 = 0
      and ?x1.0 = 10 and ?y1.0 = 0 and ?z1.0 = 0]
    move_stage_report [where x = "Some 10" and y = None and z = "Some (- 7)"
      and target = "[(''x'', 10), (''z'', - 7)]" and m = "sim True" and s = "(3, - 4, 5)"
      and relative = True
      and before_pos = "[(''x'', 3), (''y'', - 4), (''z'', 5)]" and ?s1.0 = "(3, - 4, 5)"
      and ?s2.0 = "(13, - 4, - 2)" and after_pos = "[(''x'', 13), (''y'', - 4), (''z'', - 2)]"
      and ?s3.0 = "(13, - 4, - 2)" and ?x0.0 = 3 and ?y0.0 = "- 4" and ?z0.0 = 5
      and ?x1.0 = 13 and ?y1.0 = "- 4" and ?z1.0 = "- 2"]
  by (simp add: sim_def sim_position_def sim_move_def sim_move_rel_def origin_def set_axis_def
        dict_get_def repr_pos_examples str_int_examples)

text \<open>
  C4. A \<^verbatim>\<open>move_stage\<close> call with none of \<open>x\<close>, \<open>y\<close>, \<open>z\<close> supplied returns the
  validation text and calls no method of the client: the device state and the log of
  calls are as before.
\<close>

theorem move_stage_no_axes:
  "move_stage (logged m) None None None relative (s, lg) =
     (Inr ''No position specified. Please provide x, y, or z coordinates.'', (s, lg))"
  by (simp add: move_stage_def set_axis_def no_position_text_def ret_apply)

theorem move_stage_no_axes_witness:
  "move_stage (logged (sim True)) None None None True (origin, []) =
     (Inr ''No position specified. Please provide x, y, or z coordinates.'', (origin, []))"
  using move_stage_no_axes [of "sim True" True origin "[]"] by simp

section \<open>Reading the position and the device information\<close>


lemma str_int_0: "str_int 0 = ''0''"
  by code_simp







section \<open>Generic extension dispatch\<close>

lemma try_except_apply:
  "try_except f h s = (case f s of (Inl e, s') \<Rightarrow> h e s' | (Inr x, s') \<Rightarrow> (Inr x, s'))"
  by (simp add: try_except_def)

lemma map_of_None_iff: "map_of al k = None \<longleftrightarrow> k \<notin> fst ` set al"
  by (simp add: map_of_eq_None_iff)

lemma lower_GeT: "lower ''GeT'' = ''get''"
  by code_simp

lemma lower_POST: "lower ''POST'' = ''post''"
  by code_simp

lemma lower_put: "lower ''put'' = ''put''"
  by code_simp

text \<open>
  C5. \<^verbatim>\<open>call_extension\<close> validates in this order. An extension identifier that is not
  registered gives a text listing the registered identifiers, and no call on the client.
  Otherwise a link name that the extension does not have gives a text listing the links
  of that extension, and no call. Otherwise a method whose lower-case form is \<open>get\<close>
  makes one \<^verbatim>\<open>get()\<close> call on the link, one whose lower-case form is \<open>post\<close> makes
  one \<^verbatim>\<open>post_json\<close> call with the payload, or with the empty dict when no payload was
  given, and any other method gives the text for an unknown method, and no call.
\<close>

theorem call_extension_validation:
  "(extension_name \<notin> fst ` set (extensions m) \<longrightarrow>
      call_extension (logged m) extension_name link_name method payload (s, lg) =
        (Inr (''Extension '' @ SQ @ extension_name @ SQ @ '' not found. Available extensions: '' @
              ''['' @ join '', '' (map repr_str (map fst (extensions m))) @ '']''), (s, lg)))
   \<and> (map_of (extensions m) extension_name = Some links \<and> link_name \<notin> set links \<longrightarrow>
      call_extension (logged m) extension_name link_name method payload (s, lg) =
        (Inr (''Link '' @ SQ @ link_name @ SQ @ '' not found in extension '' @ SQ @
              extension_name @ SQ @ ''. Available links: '' @
              ''['' @ join '', '' (map repr_str links) @ '']''), (s, lg)))
   \<and> (map_of (extensions m) extension_name = Some links \<and> link_name \<in> set links \<and>
       lower method = ''get'' \<longrightarrow>
      call_extension (logged m) extension_name link_name method payload (s, lg) =
        (Inr (case fst (link_get m extension_name link_name s) of
                Inr result \<Rightarrow>
                  NL @ ''        Extension call successful:'' @ NL @
                  ''        '' @ NL @
                  ''        Extension: '' @ extension_name @ NL @
                  ''        Link: '' @ link_name @ NL @
                  ''        Method: '' @ method @ NL @
                  ''        '' @ NL @
                  ''        Result:'' @ NL @
                  ''        '' @ str_obj result @ NL @
                  ''        ''
              | Inl e \<Rightarrow> ''Error calling extension: '' @ exc_str e),
         (snd (link_get m extension_name link_name s), lg @ [LinkGet extension_name link_name])))
   \<and> (map_of (extensions m) extension_name = Some links \<and> link_name \<in> set links \<and>
       lower method \<noteq> ''get'' \<and> lower method = ''post'' \<longrightarrow>
      call_extension (logged m) extension_name link_name method payload (s, lg) =
        (Inr (case fst (link_post_json m extension_name link_name
                          (case payload of None \<Rightarrow> [] | Some p \<Rightarrow> p) s) of
                Inr result \<Rightarrow>
                  NL @ ''        Extension call successful:'' @ NL @
                  ''        '' @ NL @
                  ''        Extension: '' @ extension_name @ NL @
                  ''        Link: '' @ link_name @ NL @
                  ''        Method: '' @ method @ NL @
                  ''        '' @ NL @
                  ''        Result:'' @ NL @
                  ''        '' @ str_obj result @ NL @
                  ''        ''
              | Inl e \<Rightarrow> ''Error calling extension: '' @ exc_str e),
         (snd (link_post_json m extension_name link_name
                 (case payload of None \<Rightarrow> [] | Some p \<Rightarrow> p) s),
          lg @ [LinkPostJson extension_name link_name
                  (case payload of None \<Rightarrow> [] | Some p \<Rightarrow> p)])))
   \<and> (map_of (extensions m) extension_name = Some links \<and> link_name \<in> set links \<and>
       lower method \<noteq> ''get'' \<and> lower method \<noteq> ''post'' \<longrightarrow>
      call_extension (logged m) extension_name link_name method payload (s, lg) =
        (Inr (''Unknown method '' @ SQ @ method @ SQ @ ''. Please use '' @ SQ @ ''get'' @ SQ @
              '' or '' @ SQ @ ''post'' @ SQ @ ''.''), (s, lg)))"
  by (auto simp: call_extension_def run_simps try_except_apply map_of_None_iff[symmetric]
        extension_not_found_text_def link_not_found_text_def unknown_method_text_def
        call_error_text_def call_success_text_def repr_strs_def
        split: sum.splits prod.splits option.splits)

lemma repr_str_examples:
  "repr_str ''org.openflexure.microscope'' = SQ @ ''org.openflexure.microscope'' @ SQ"
  "repr_str ''org.openflexure.autofocus'' = SQ @ ''org.openflexure.autofocus'' @ SQ"
  "repr_str ''device-info'' = SQ @ ''device-info'' @ SQ"
  "repr_str ''state'' = SQ @ ''state'' @ SQ"
  by code_simp+

lemma str_obj_sim_info: "str_obj sim_info = ''{'name': 'sim', 'version': 2}''"
  by code_simp

theorem call_extension_validation_witness:
  "call_extension (logged sim_ext) ''camera'' ''device-info'' ''get'' None (origin, []) =
     (Inr ''Extension 'camera' not found. Available extensions: ['org.openflexure.microscope', 'org.openflexure.autofocus']'',
      (origin, []))
   \<and> call_extension (logged sim_ext) ''org.openflexure.microscope'' ''zoom'' ''get'' None
       (origin, []) =
     (Inr ''Link 'zoom' not found in extension 'org.openflexure.microscope'. Available links: ['device-info', 'state']'',
      (origin, []))
   \<and> call_extension (logged sim_ext) ''org.openflexure.microscope'' ''state'' ''GeT'' None
       (origin, []) =
     (Inr (NL @ ''        Extension call successful:'' @ NL @
           ''        '' @ NL @
           ''        Extension: org.openflexure.microscope'' @ NL @
           ''        Link: state'' @ NL @
           ''        Method: GeT'' @ NL @
           ''        '' @ NL @
           ''        Result:'' @ NL @
           ''        {'name': 'sim', 'version': 2}'' @ NL @
           ''        ''),
      (origin, [LinkGet ''org.openflexure.microscope'' ''state'']))
   \<and> call_extension (logged sim_ext) ''org.openflexure.microscope'' ''device-info'' ''POST'' None
       (origin, []) =
     (Inr (NL @ ''        Extension call successful:'' @ NL @
           ''        '' @ NL @
           ''        Extension: org.openflexure.microscope'' @ NL @
           ''        Link: device-info'' @ NL @
           ''        Method: POST'' @ NL @
           ''        '' @ NL @
           ''        Result:'' @ NL @
           ''        {'name': 'sim', 'version': 2}'' @ NL @
           ''        ''),
      (origin, [LinkPostJson ''org.openflexure.microscope'' ''device-info'' []]))
   \<and> snd (call_extension (logged sim_ext) ''org.openflexure.microscope'' ''device-info'' ''POST''
       (Some [(''a'', PyInt 1)]) (origin, [])) =
     (origin, [LinkPostJson ''org.openflexure.microscope'' ''device-info'' [(''a'', PyInt 1)]])
   \<and> call_extension (logged sim_ext) ''org.openflexure.microscope'' ''device-info'' ''put'' None
       (origin, []) =
     (Inr ''Unknown method 'put'. Please use 'get' or 'post'.'', (origin, []))"
  using
    call_extension_validation [of "''camera''" sim_ext "''device-info''" "''get''" None
      origin "[]" "[''device-info'', ''state'']"]
    call_extension_validation [of "''org.openflexure.microscope''" sim_ext "''zoom''"
      "''get''" None origin "[]" "[''device-info'', ''state'']"]
    call_extension_validation [of "''org.openflexure.microscope''" sim_ext
      "''state''" "''GeT''" None origin "[]" "[''device-info'', ''state'']"]
    call_extension_validation [of "''org.openflexure.microscope''" sim_ext
      "''device-info''" "''POST''" None origin "[]" "[''device-info'', ''state'']"]
    call_extension_validation [of "''org.openflexure.microscope''" sim_ext
      "''device-info''" "''POST''" "Some [(''a'', PyInt 1)]" origin "[]"
      "[''device-info'', ''state'']"]
    call_extension_validation [of "''org.openflexure.microscope''" sim_ext
      "''device-info''" "''put''" None origin "[]" "[''device-info'', ''state'']"]
  by (simp add: sim_ext_def sim_def sim_link_def ret_apply lower_GeT lower_POST lower_put
        repr_str_examples str_obj_sim_info)

text \<open>
  C7. \<^verbatim>\<open>call_extension\<close> never raises. When the call passes validation and the
  dispatched \<^verbatim>\<open>get\<close> or \<^verbatim>\<open>post_json\<close> raises an exception, the result is the text
  \<^verbatim>\<open>Error calling extension: \<close> followed by the text of the exception.
\<close>

theorem call_extension_catches:
  "(\<exists>out st. call_extension m extension_name link_name method payload s = (Inr out, st))
   \<and> (map_of (extensions m) extension_name = Some links \<and> link_name \<in> set links \<and>
       lower method = ''get'' \<and> link_get m extension_name link_name s = (Inl err, s') \<longrightarrow>
      call_extension m extension_name link_name method payload s =
        (Inr (''Error calling extension: '' @ exc_str err), s'))
   \<and> (map_of (extensions m) extension_name = Some links \<and> link_name \<in> set links \<and>
       lower method \<noteq> ''get'' \<and> lower method = ''post'' \<and>
       link_post_json m extension_name link_name (case payload of None \<Rightarrow> [] | Some p \<Rightarrow> p) s =
         (Inl err, s') \<longrightarrow>
      call_extension m extension_name link_name method payload s =
        (Inr (''Error calling extension: '' @ exc_str err), s'))"
  by (auto simp: call_extension_def run_simps try_except_apply call_error_text_def
        split: sum.splits prod.splits option.splits)

theorem call_extension_catches_witness:
  "call_extension (sim False) ''org.openflexure.microscope'' ''device-info'' ''GeT'' None origin =
     (Inr ''Error calling extension: unreachable'', origin)
   \<and> call_extension (sim False) ''org.openflexure.microscope'' ''device-info'' ''POST''
       (Some [(''a'', PyInt 1)]) origin =
     (Inr ''Error calling extension: unreachable'', origin)"
  using
    call_extension_catches [of "sim False" "''org.openflexure.microscope''" "''device-info''"
      "''GeT''" None origin "[''device-info'']"
      "Exception ''ConnectionError'' ''unreachable''" origin]
    call_extension_catches [of "sim False" "''org.openflexure.microscope''" "''device-info''"
      "''POST''" "Some [(''a'', PyInt 1)]" origin "[''device-info'']"
      "Exception ''ConnectionError'' ''unreachable''" origin]
  by (simp add: sim_def sim_link_def lift_apply lower_GeT lower_POST)

section \<open>Z-stack acquisition\<close>

lemma moves_append: "moves (xs @ ys) = moves xs @ moves ys"
  by (induction xs rule: moves.induct) auto

lemma moves_iterations:
  "moves (concat (map (iteration_calls np) zs)) = map (\<lambda>z. AList.update ''z'' z np) zs"
  by (induction zs) (auto simp: iteration_calls_def)

lemma moves_stack_calls:
  "moves (stack_calls sp a zs) =
     AList.update ''z'' a sp # map (\<lambda>z. AList.update ''z'' z (AList.update ''z'' a sp)) zs @ [sp]"
  by (simp add: stack_calls_def moves_append moves_iterations)


lemma float_of_int_0: "float_of_int 0 = Inr (Fin False 0 0)"
  by code_simp

lemma format_zero_step: "format_num_2f (PInt 0) = Inr ''0.00''"
  by code_simp

lemma z_step_of_formats: "z_step_of a b n = Inr zst \<Longrightarrow> \<exists>t. format_num_2f zst = Inr t"
  by (auto simp: z_step_of_def float_of_int_0 split: if_splits sum.splits)

lemma target_z_int_step: "target_z a (PInt 0) i = Inr a"
  by (simp add: target_z_def)

lemma sim_loop_returns:
  "map (target_z a zst) idx = map Inr zs \<Longrightarrow>
   \<exists>cap' st. z_loop (logged (sim ok)) np a zst idx cap (s, lg) = (Inr cap', st)"
proof (induction idx arbitrary: zs cap s lg)
  case Nil
  have "z_loop (logged (sim ok)) np a zst [] cap (s, lg) = (Inr cap, (s, lg))"
    by (simp add: ret_apply)
  then show ?case by blast
next
  case (Cons i rest)
  from Cons.prems obtain z zs' where z: "target_z a zst i = Inr z"
    and rest: "map (target_z a zst) rest = map Inr zs'"
    by (cases zs) auto
  show ?case
    using Cons.IH[OF rest] z
    by (cases s)
       (simp add: run_simps sim_def sim_position_def sim_move_def getitem_def)
qed

lemma sim_stack_returns:
  assumes "z_step_of a b n = Inr zst" and "map (target_z a zst) [0..n - 1] = map Inr zs"
  shows "\<exists>out s' lg'. run_z_stack (logged (sim ok)) a b n (s, lg) = (Inr out, (s', lg'))"
proof -
  obtain x y z where s: "s = (x, y, z)"
    by (cases s) auto
  obtain t where t: "format_num_2f zst = Inr t"
    using z_step_of_formats[OF assms(1)] by blast
  let ?sp = "[(''x'', x), (''y'', y), (''z'', z)]"
  let ?np = "AList.update ''z'' a ?sp"
  obtain cap' s1 lg1 where loop:
    "z_loop (logged (sim ok)) ?np a zst [0..n - 1] []
       ((dict_get ?np ''x'' x, dict_get ?np ''y'' y, dict_get ?np ''z'' z),
        (lg @ [GetPosition]) @ [Move ?np]) = (Inr cap', (s1, lg1))"
    using sim_loop_returns[OF assms(2)] by (metis surj_pair)
  obtain x1 y1 z1 where s1: "s1 = (x1, y1, z1)"
    by (cases s1) auto
  show ?thesis
    using loop t assms(1)
    by (simp add: run_z_stack_def s s1 run_simps Let_def sim_def sim_position_def sim_move_def
          del: format_num_2f.simps)
qed

lemma step_90: "z_step_of 0 90 10 = Inr (PFloat (Fin False 5629499534213120 (- 49)))"
  by code_simp

lemma targets_90:
  "map (target_z 0 (PFloat (Fin False 5629499534213120 (- 49)))) [0..9] =
   map Inr [0, 10, 20, 30, 40, 50, 60, 70, 80, 90]"
  by code_simp

lemma targets_90_range:
  "map (target_z 0 (PFloat (Fin False 5629499534213120 (- 49)))) [0..10 - 1] =
   map Inr [0, 10, 20, 30, 40, 50, 60, 70, 80, 90]"
  using targets_90 by simp

lemma step_1000: "z_step_of 0 1000 20 = Inr (PFloat (Fin False 7407236229227789 (- 47)))"
  by code_simp

lemma targets_1000:
  "map (target_z 0 (PFloat (Fin False 7407236229227789 (- 47)))) [0..19] =
   map Inr [0, 52, 105, 157, 210, 263, 315, 368, 421, 473, 526, 578, 631, 684, 736, 789, 842,
            894, 947, 999]"
  by code_simp

lemma targets_1000_range:
  "map (target_z 0 (PFloat (Fin False 7407236229227789 (- 47)))) [0..20 - 1] =
   map Inr [0, 52, 105, 157, 210, 263, 315, 368, 421, 473, 526, 578, 631, 684, 736, 789, 842,
            894, 947, 999]"
  using targets_1000 by simp

lemma map_Inr_eq: "map Inr xs = (map Inr ys :: ('a + 'b) list) \<longleftrightarrow> xs = ys"
  by (simp add: inj_map_eq_map)

lemma target_z_float:
  "target_z start_z (PFloat d) i = Inr v \<longleftrightarrow>
     (\<exists>fi fs. float_of_int i = Inr fi \<and> float_of_int start_z = Inr fs \<and>
              float_trunc (float_add fs (float_mul fi d)) = Inr v)"
  by (auto simp: target_z_def split: sum.splits)

text \<open>
  What the loop does. A \<^verbatim>\<open>run_z_stack\<close> call with \<open>steps = N > 1\<close> that returns has
  made, between the initial move to \<open>start_z\<close> and the final restoring move, exactly
  \<open>N\<close> iterations of move, position read and image grab. The Z value commanded at
  iteration \<open>i\<close> is what \<^verbatim>\<open>int\<close> gives for the binary64 number
  \<open>float(start_z) + float(i) * z_step\<close>, where \<open>z_step\<close> is the correctly rounded
  quotient \<open>(end_z - start_z) / (N - 1)\<close>. For \<open>run_z_stack(0, 90, 10)\<close> the
  commanded values are \<open>0, 10, \<dots>, 90\<close>.
\<close>

lemma z_stack_iterations:
  assumes "1 < steps"
    and "run_z_stack (logged m) start_z end_z steps (s, []) = (Inr out, (s', lg))"
  shows "\<exists>d start_pos zs.
           int_truediv (end_z - start_z) (steps - 1) = Inr d \<and>
           fst (position m s) = Inr start_pos \<and>
           length zs = nat steps \<and>
           (\<forall>i < nat steps. \<exists>fi fs.
              float_of_int (int i) = Inr fi \<and> float_of_int start_z = Inr fs \<and>
              float_trunc (float_add fs (float_mul fi d)) = Inr (zs ! i)) \<and>
           lg = [GetPosition, Move (AList.update ''z'' start_z start_pos)] @
                concat (map (\<lambda>z. [Move (AList.update ''z'' z (AList.update ''z'' start_z start_pos)),
                                    GetPosition, GrabImage]) zs) @
                [Move start_pos, GetPosition] \<and>
           (start_z = 0 \<and> end_z = 90 \<and> steps = 10 \<longrightarrow>
              zs = [0, 10, 20, 30, 40, 50, 60, 70, 80, 90])"
proof -
  from run_z_stack_calls[OF assms(2)] obtain zst start_pos zs where
    zst: "z_step_of start_z end_z steps = Inr zst" and
    sp: "fst (position m s) = Inr start_pos" and
    zs: "map (target_z start_z zst) [0..steps - 1] = map Inr zs" and
    lg: "lg = [] @ stack_calls start_pos start_z zs"
    by blast
  from zst assms(1) obtain d where
    d: "int_truediv (end_z - start_z) (steps - 1) = Inr d" and zst_d: "zst = PFloat d"
    by (auto simp: z_step_of_def split: sum.splits)
  have len: "length zs = nat steps"
    using arg_cong[OF zs, of length] by simp
  have nth: "target_z start_z (PFloat d) (int i) = Inr (zs ! i)" if "i < nat steps" for i
  proof -
    have "map (target_z start_z zst) [0..steps - 1] ! i = map Inr zs ! i"
      using zs by simp
    then show ?thesis
      using that len by (simp add: zst_d)
  qed
  have ex: "zs = [0, 10, 20, 30, 40, 50, 60, 70, 80, 90]"
    if "start_z = 0" "end_z = 90" "steps = 10"
  proof -
    from zst that have "zst = PFloat (Fin False 5629499534213120 (- 49))"
      by (simp add: step_90)
    with zs that have
      "map (target_z 0 (PFloat (Fin False 5629499534213120 (- 49)))) [0..9] = map Inr zs"
      by simp
    then show ?thesis
      unfolding targets_90 by (simp only: map_Inr_eq)
  qed
  have lg': "lg = [GetPosition, Move (AList.update ''z'' start_z start_pos)] @
                concat (map (\<lambda>z. [Move (AList.update ''z'' z (AList.update ''z'' start_z start_pos)),
                                    GetPosition, GrabImage]) zs) @
                [Move start_pos, GetPosition]"
    using lg by (simp add: stack_calls_def iteration_calls_def[abs_def])
  show ?thesis
    using d sp len nth ex lg' by (auto simp: target_z_float)
qed

lemma z_stack_example_90:
  "\<exists>out s'. run_z_stack (logged (sim True)) 0 90 10 (origin, []) =
     (Inr out, (s',
        [GetPosition, Move [(''x'', 0), (''y'', 0), (''z'', 0)]] @
        concat (map (\<lambda>z. [Move [(''x'', 0), (''y'', 0), (''z'', z)], GetPosition, GrabImage])
                  [0, 10, 20, 30, 40, 50, 60, 70, 80, 90]) @
        [Move [(''x'', 0), (''y'', 0), (''z'', 0)], GetPosition]))"
proof -
  obtain out s' lg where run:
    "run_z_stack (logged (sim True)) 0 90 10 (origin, []) = (Inr out, (s', lg))"
    using sim_stack_returns[OF step_90 targets_90_range] by blast
  from z_stack_iterations[OF _ run] have
    "lg = [GetPosition, Move [(''x'', 0), (''y'', 0), (''z'', 0)]] @
        concat (map (\<lambda>z. [Move [(''x'', 0), (''y'', 0), (''z'', z)], GetPosition, GrabImage])
                  [0, 10, 20, 30, 40, 50, 60, 70, 80, 90]) @
        [Move [(''x'', 0), (''y'', 0), (''z'', 0)], GetPosition]"
    by (auto simp: sim_def sim_position_def origin_def)
  with run show ?thesis
    by blast
qed

text \<open>
  \<^verbatim>\<open>int\<close> truncates toward zero: from 5 down to -5 in four steps the float targets
  are 5.0, 1.67, -1.67 and -5.0, and the commanded values are 5, 1, -1 and -5.
\<close>

lemma step_down: "z_step_of 5 (- 5) 4 = Inr (PFloat (Fin True 7505999378950827 (- 51)))"
  by code_simp

lemma targets_down:
  "map (target_z 5 (PFloat (Fin True 7505999378950827 (- 51)))) [0..3] = map Inr [5, 1, - 1, - 5]"
  by code_simp

text \<open>
  C2. The loop is written to run from \<open>start_z\<close> to \<open>end_z\<close>: the step is the
  range divided by \<open>steps - 1\<close>, so that iteration \<open>i\<close> is to command the truncation
  of \<open>start_z + i \<sqdot> ((end_z - start_z) / (N - 1))\<close> and the last iteration
  \<open>end_z\<close>. The code misses this value: it truncates a float product that rounding
  has left just below the integer. \<open>run_z_stack(0, 1000, 20)\<close> returns after its 22
  moves, and the move of iteration 19, the last of the loop, commands Z = 999, where
  the stated value \<open>0 + 19 \<sqdot> (1000 / 19)\<close> is 1000, the \<open>end_z\<close> of the call.
\<close>

theorem z_stack_misses_end_z:
  "length (moves (snd (snd (run_z_stack (logged (sim True)) 0 1000 20 (origin, []))))) = 22
   \<and> moves (snd (snd (run_z_stack (logged (sim True)) 0 1000 20 (origin, [])))) ! 20 =
     [(''x'', 0), (''y'', 0), (''z'', 999)]
   \<and> exact_target_z 0 1000 20 19 = 1000"
proof -
  obtain out s' lg where run:
    "run_z_stack (logged (sim True)) 0 1000 20 (origin, []) = (Inr out, (s', lg))"
    using sim_stack_returns[OF step_1000 targets_1000_range] by blast
  from run_z_stack_calls[OF run] obtain start_pos zs where
    sp: "fst (position (sim True) origin) = Inr start_pos" and
    zs: "map (target_z 0 (PFloat (Fin False 7407236229227789 (- 47)))) [0..19] = map Inr zs" and
    lg: "lg = [] @ stack_calls start_pos 0 zs"
    by (auto simp: step_1000)
  have zs': "zs = [0, 52, 105, 157, 210, 263, 315, 368, 421, 473, 526, 578, 631, 684, 736, 789,
                   842, 894, 947, 999]"
    using zs unfolding targets_1000 by (simp only: map_Inr_eq)
  have sp': "start_pos = [(''x'', 0), (''y'', 0), (''z'', 0)]"
    using sp by (simp add: sim_def sim_position_def origin_def)
  have "moves lg ! 20 = [(''x'', 0), (''y'', 0), (''z'', 999)]"
    by (simp add: lg moves_stack_calls zs' sp')
  moreover have "length (moves lg) = 22"
    by (simp add: lg moves_stack_calls zs')
  moreover have "exact_target_z 0 1000 20 19 = 1000"
    by (simp add: exact_target_z_def)
  ultimately show ?thesis
    by (simp add: run)
qed



text \<open>
  C6. For \<open>steps = 1\<close> the step size is the integer \<open>0\<close>, without any division, and a
  call that returns has grabbed exactly one image, after a move whose Z value is
  \<open>start_z\<close>.
\<close>

theorem z_stack_single_step:
  assumes "run_z_stack (logged m) start_z end_z 1 (s, []) = (Inr out, (s', lg))"
  shows "z_step_of start_z end_z 1 = Inr (PInt 0) \<and>
         (\<exists>start_pos. fst (position m s) = Inr start_pos \<and>
            lg = [GetPosition, Move (AList.update ''z'' start_z start_pos),
                  Move (AList.update ''z'' start_z start_pos), GetPosition, GrabImage,
                  Move start_pos, GetPosition])"
proof -
  have step: "z_step_of start_z end_z 1 = Inr (PInt 0)"
    by (simp add: z_step_of_def)
  from run_z_stack_calls[OF assms] obtain zst start_pos zs where
    zst: "z_step_of start_z end_z 1 = Inr zst" and
    sp: "fst (position m s) = Inr start_pos" and
    zs: "map (target_z start_z zst) [0..1 - 1] = map Inr zs" and
    lg: "lg = [] @ stack_calls start_pos start_z zs"
    by blast
  have "[0..(1::int) - 1] = [0]"
    by (simp add: upto_rec1)
  with zs zst step have "zs = [start_z]"
    by (auto simp: target_z_int_step)
  with sp lg step show ?thesis
    by (simp add: stack_calls_def iteration_calls_def)
qed

theorem z_stack_single_step_witness:
  "\<exists>out s'. run_z_stack (logged (sim True)) 5 7 1 ((1, 2, 3), []) =
     (Inr out, (s',
        [GetPosition, Move [(''x'', 1), (''y'', 2), (''z'', 5)],
         Move [(''x'', 1), (''y'', 2), (''z'', 5)], GetPosition, GrabImage,
         Move [(''x'', 1), (''y'', 2), (''z'', 3)], GetPosition]))"
proof -
  have "z_step_of 5 7 1 = Inr (PInt 0)"
    by (simp add: z_step_of_def)
  moreover have "map (target_z 5 (PInt 0)) [0..1 - 1] = map Inr [5]"
    by (simp add: target_z_int_step upto_rec1)
  ultimately obtain out s' lg where run:
    "run_z_stack (logged (sim True)) 5 7 1 ((1, 2, 3), []) = (Inr out, (s', lg))"
    using sim_stack_returns by blast
  from z_stack_single_step[OF run] have
    "lg = [GetPosition, Move [(''x'', 1), (''y'', 2), (''z'', 5)],
         Move [(''x'', 1), (''y'', 2), (''z'', 5)], GetPosition, GrabImage,
         Move [(''x'', 1), (''y'', 2), (''z'', 3)], GetPosition]"
    by (auto simp: sim_def sim_position_def)
  with run show ?thesis
    by blast
qed

text \<open>
  C9. For \<open>steps \<le> 0\<close> the step size is the integer \<open>0\<close>, without any division, and
  the loop does not run: when the client calls return, the calls are the position read,
  the move to \<open>start_z\<close> with the other axes as saved, the restoring move and the final
  position read, and the result is the normal summary, reporting \<open>0\<close> images.
\<close>

theorem z_stack_no_steps:
  assumes "steps \<le> 0"
    and "position m s = (Inr start_pos, s1)"
    and "move m (AList.update ''z'' start_z start_pos) s1 = (Inr (), s2)"
    and "move m start_pos s2 = (Inr (), s3)"
    and "position m s3 = (Inr final_pos, s4)"
  shows "z_step_of start_z end_z steps = Inr (PInt 0) \<and>
         run_z_stack (logged m) start_z end_z steps (s, []) =
           (Inr (NL @ ''    Z-stack acquisition completed!'' @ NL @
                 ''    '' @ NL @
                 ''    Captured 0 images'' @ NL @
                 ''    Z range: '' @ str_int start_z @ '' to '' @ str_int end_z @ NL @
                 ''    Step size: 0.00'' @ NL @
                 ''    '' @ NL @
                 ''    Images captured at Z positions:'' @ NL @
                 ''    []'' @ NL @
                 ''    '' @ NL @
                 ''    Current position: '' @ repr_pos final_pos @ NL @
                 ''    ''),
            (s4, [GetPosition, Move (AList.update ''z'' start_z start_pos), Move start_pos,
                  GetPosition]))"
  using assms
  by (simp add: run_z_stack_def z_step_of_def run_simps Let_def format_zero_step
        z_stack_text_def repr_ints_def str_int_0 del: format_num_2f.simps)

theorem z_stack_no_steps_witness:
  "run_z_stack (logged (sim True)) 5 7 0 ((1, 2, 3), []) =
     (Inr (NL @ ''    Z-stack acquisition completed!'' @ NL @
           ''    '' @ NL @
           ''    Captured 0 images'' @ NL @
           ''    Z range: '' @ str_int 5 @ '' to '' @ str_int 7 @ NL @
           ''    Step size: 0.00'' @ NL @
           ''    '' @ NL @
           ''    Images captured at Z positions:'' @ NL @
           ''    []'' @ NL @
           ''    '' @ NL @
           ''    Current position: '' @ repr_pos [(''x'', 1), (''y'', 2), (''z'', 3)] @ NL @
           ''    ''),
      ((1, 2, 3), [GetPosition, Move [(''x'', 1), (''y'', 2), (''z'', 5)],
                   Move [(''x'', 1), (''y'', 2), (''z'', 3)], GetPosition]))"
  using z_stack_no_steps [where steps = 0 and m = "sim True" and s = "(1, 2, 3)"
      and start_pos = "[(''x'', 1), (''y'', 2), (''z'', 3)]" and ?s1.0 = "(1, 2, 3)"
      and start_z = 5 and end_z = 7 and ?s2.0 = "(1, 2, 5)" and ?s3.0 = "(1, 2, 3)"
      and final_pos = "[(''x'', 1), (''y'', 2), (''z'', 3)]" and ?s4.0 = "(1, 2, 3)"]
  by (simp add: sim_def sim_position_def sim_move_def dict_get_def)

end
